theory Spec2Isabelle
  imports Main "HOL-Library.Word"
begin

unbundle bit_operations_syntax

section \<open>The todo API of server.go\<close>

text \<open>
  server.go registers five request handlers on a Fiber application; each one calls the
  MongoDB driver on the collection "todos" and turns the driver's answer into an HTTP
  response. The handlers are embedded below one by one, in the order of the source. The
  library functions they call (encoding/hex, primitive.ObjectID, the collection methods of
  the driver, Fiber's body parser and encoding/json) are not part of the repository; they
  are embedded as executable functions that follow their documented behaviour, on an
  in-memory collection.
\<close>

subsection \<open>Errors\<close>

datatype error =
    ErrInvalidHex
  | InvalidByteError char
  | ErrLength
  | ErrNoDocuments
  | CommandError string
  | WriteException string
  | UnmarshalTypeError string string string
  | SyntaxError string
  | ErrUnprocessableEntity

text \<open>
  The verb \<open>%#U\<close> that \<open>InvalidByteError\<close> prints its byte with: \<open>U+\<close>, four upper
  case hex digits, and the character in quotes when it is printable.
\<close>

definition sharp_U :: "char \<Rightarrow> string" where
  "sharp_U c =
     (let n = (of_char c :: nat) in
      ''U+00'' @ [''0123456789ABCDEF'' ! (n div 16), ''0123456789ABCDEF'' ! (n mod 16)] @
      (if (32 \<le> n \<and> n \<le> 126) \<or> (161 \<le> n \<and> n \<noteq> 173)
       then [CHR '' '', CHR 0x27] @
            (if n < 128 then [c] else [char_of (192 + n div 64), char_of (128 + n mod 64)]) @
            [CHR 0x27]
       else []))"

text \<open>
  The messages. \<open>UnmarshalTypeError\<close> holds the JSON value, the field of \<open>Todo\<close> (empty
  for the struct itself) and the Go type; the text of a write exception is the server's,
  abbreviated here.
\<close>

fun Error :: "error \<Rightarrow> string" where
  "Error ErrInvalidHex = ''the provided hex string is not a valid ObjectID''"
| "Error (InvalidByteError c) = ''encoding/hex: invalid byte: '' @ sharp_U c"
| "Error ErrLength = ''encoding/hex: odd length hex string''"
| "Error ErrNoDocuments = ''mongo: no documents in result''"
| "Error (CommandError m) = m"
| "Error (WriteException m) = ''write exception: '' @ m"
| "Error (UnmarshalTypeError v f ty) =
     (if f = [] then ''json: cannot unmarshal '' @ v @ '' into Go value of type '' @ ty
      else ''json: cannot unmarshal '' @ v @ '' into Go struct field Todo.'' @ f @
           '' of type '' @ ty)"
| "Error (SyntaxError m) = m"
| "Error ErrUnprocessableEntity = ''Unprocessable Entity''"

subsection \<open>encoding/hex and primitive.ObjectID\<close>

type_synonym byte = "8 word"

text \<open>\<open>type ObjectID [12]byte\<close>: the bytes of the array, most significant first.\<close>

type_synonym ObjectID = "byte list"

definition hextable :: string where
  "hextable = ''0123456789abcdef''"

text \<open>\<open>hex.EncodeToString\<close>: two digits of \<open>hextable\<close> for each byte.\<close>

fun EncodeToString :: "byte list \<Rightarrow> string" where
  "EncodeToString [] = []"
| "EncodeToString (v # vs) =
     hextable ! unat (drop_bit 4 v) # hextable ! unat (v AND 15) # EncodeToString vs"

definition fromHexChar :: "char \<Rightarrow> byte option" where
  "fromHexChar c =
     (let n = (of_char c :: nat) in
      if 48 \<le> n \<and> n \<le> 57 then Some (of_nat (n - 48))
      else if 97 \<le> n \<and> n \<le> 102 then Some (of_nat (n - 97 + 10))
      else if 65 \<le> n \<and> n \<le> 70 then Some (of_nat (n - 65 + 10))
      else None)"

text \<open>
  \<open>hex.DecodeString\<close>: pairs of digits from the left; the first character that is no
  digit is reported, an odd length after that.
\<close>

fun DecodeString :: "string \<Rightarrow> error + byte list" where
  "DecodeString [] = Inr []"
| "DecodeString [p] =
     (case fromHexChar p of None \<Rightarrow> Inl (InvalidByteError p) | Some a \<Rightarrow> Inl ErrLength)"
| "DecodeString (p # q # src) =
     (case fromHexChar p of
        None \<Rightarrow> Inl (InvalidByteError p)
      | Some a \<Rightarrow>
          (case fromHexChar q of
             None \<Rightarrow> Inl (InvalidByteError q)
           | Some b \<Rightarrow>
               (case DecodeString src of
                  Inl e \<Rightarrow> Inl e
                | Inr dst \<Rightarrow> Inr ((push_bit 4 a OR b) # dst))))"

definition ObjectIDFromHex :: "string \<Rightarrow> error + ObjectID" where
  "ObjectIDFromHex s =
     (if length s \<noteq> 24 then Inl ErrInvalidHex
      else case DecodeString s of Inl err \<Rightarrow> Inl err | Inr b \<Rightarrow> Inr b)"

definition Hex :: "ObjectID \<Rightarrow> string" where
  "Hex oid = EncodeToString oid"

subsection \<open>The Todo struct and the documents of the collection\<close>

record Todo =
  ID :: string
  Text :: string
  Completed :: bool

text \<open>\<open>new(Todo)\<close> and \<open>&Todo{}\<close>: the zero value.\<close>

definition new_Todo :: Todo where
  "new_Todo = \<lparr>ID = [], Text = [], Completed = False\<rparr>"

text \<open>
  The value under the key \<open>_id\<close> of a stored document: an ObjectID that the driver
  generated, or the string of a \<open>Todo\<close> whose \<open>ID\<close> was not empty when it was marshalled
  (\<open>bson:"_id,omitempty"\<close> leaves the key out only for the empty string).
\<close>

datatype bson_id = ObjectIDValue ObjectID | StringValue string

record document =
  d_id :: bson_id
  d_text :: string
  d_completed :: bool

text \<open>
  Unmarshalling a document into a \<open>Todo\<close>: the string codec of the driver decodes an
  ObjectID into its hex form.
\<close>

definition Todo_of_document :: "document \<Rightarrow> Todo" where
  "Todo_of_document d =
     \<lparr>ID = (case d_id d of ObjectIDValue oid \<Rightarrow> Hex oid | StringValue s \<Rightarrow> s),
      Text = d_text d, Completed = d_completed d\<rparr>"

subsection \<open>The driver on an in-memory collection\<close>

datatype driver_call =
  Call_Find | Call_InsertOne | Call_FindOne | Call_FindOneAndUpdate | Call_DeleteOne

text \<open>
  \<open>mg.Db.Collection("todos")\<close>: the documents in the order the store yields them, and the
  log of the collection methods called so far. Every method takes the failure of its round
  trip to the server, if any, as its first argument (\<open>Some m\<close>: the call fails with message
  \<open>m\<close> and leaves the documents as they are).
\<close>

record mongo =
  documents :: "document list"
  calls :: "driver_call list"

definition called :: "driver_call \<Rightarrow> mongo \<Rightarrow> mongo" where
  "called c db = db\<lparr>calls := calls db @ [c]\<rparr>"

text \<open>
  A filter of \<open>Find\<close> is a \<open>bson.D\<close>: elements of a key and a value, all of which a
  document has to match. A document of the collection has the fields \<open>_id\<close>, \<open>text\<close> and
  \<open>completed\<close>; an element holding \<open>null\<close> is also matched by a document without a field
  of that key.
\<close>

datatype bson_value = Null | IdValue bson_id | TextValue string | BoolValue bool

type_synonym bson_D = "(string \<times> bson_value) list"

definition field_value :: "document \<Rightarrow> string \<Rightarrow> bson_value option" where
  "field_value d k =
     (if k = ''_id'' then Some (IdValue (d_id d))
      else if k = ''text'' then Some (TextValue (d_text d))
      else if k = ''completed'' then Some (BoolValue (d_completed d))
      else None)"

definition matches :: "bson_D \<Rightarrow> document \<Rightarrow> bool" where
  "matches query d =
     list_all (\<lambda>(k, v). case field_value d k of None \<Rightarrow> v = Null | Some w \<Rightarrow> w = v) query"

definition Find ::
  "string option \<Rightarrow> bson_D \<Rightarrow> mongo \<Rightarrow> (error + document list) \<times> mongo"
where
  "Find fault query db =
     (case fault of
        Some m \<Rightarrow> (Inl (CommandError m), called Call_Find db)
      | None \<Rightarrow> (Inr (filter (matches query) (documents db)), called Call_Find db))"

text \<open>
  \<open>cursor.All\<close> overwrites the slice with the decoded documents. A Go slice is \<open>None\<close>
  when nil; slicing a nil slice to length 0 leaves it nil.
\<close>

definition cursor_All ::
  "string option \<Rightarrow> document list \<Rightarrow> Todo list option \<Rightarrow> error option \<times> Todo list option"
where
  "cursor_All fault cursor results =
     (case fault of
        Some m \<Rightarrow> (Some (CommandError m), results)
      | None \<Rightarrow>
          (if cursor = [] then (None, map_option (\<lambda>_. []) results)
           else (None, Some (map Todo_of_document cursor))))"

text \<open>
  \<open>InsertOne\<close>: a document without \<open>_id\<close> gets the ObjectID \<open>generated\<close>, which is what
  \<open>primitive.NewObjectID()\<close> returns at this call; the unique index on \<open>_id\<close> rejects a
  key that is already stored.
\<close>

definition InsertOne ::
  "string option \<Rightarrow> ObjectID \<Rightarrow> Todo \<Rightarrow> mongo \<Rightarrow> (error + bson_id) \<times> mongo"
where
  "InsertOne fault generated todo db =
     (case fault of
        Some m \<Rightarrow> (Inl (CommandError m), called Call_InsertOne db)
      | None \<Rightarrow>
          (let key = (if ID todo = [] then ObjectIDValue generated else StringValue (ID todo))
           in if key \<in> set (map d_id (documents db))
              then (Inl (WriteException ''E11000 duplicate key error''),
                    called Call_InsertOne db)
              else (Inr key,
                    called Call_InsertOne
                      (db\<lparr>documents := documents db @
                         [\<lparr>d_id = key, d_text = Text todo, d_completed = Completed todo\<rparr>]\<rparr>))))"

text \<open>
  \<open>*mongo.SingleResult\<close>: the error of the operation, or the document it found. The
  methods below return the pointer as an option, \<open>None\<close> being nil; the driver never
  returns nil: a filter that matches nothing gives a result holding \<open>ErrNoDocuments\<close>.
\<close>

datatype SingleResult = SR_err error | SR_doc document

definition Err :: "SingleResult \<Rightarrow> error option" where
  "Err r = (case r of SR_err e \<Rightarrow> Some e | SR_doc d \<Rightarrow> None)"

text \<open>\<open>Decode\<close> leaves the target as it is when the result holds an error.\<close>

definition Decode :: "SingleResult \<Rightarrow> Todo \<Rightarrow> error option \<times> Todo" where
  "Decode r v = (case r of SR_err e \<Rightarrow> (Some e, v) | SR_doc d \<Rightarrow> (None, Todo_of_document d))"

definition FindOne :: "string option \<Rightarrow> bson_id \<Rightarrow> mongo \<Rightarrow> SingleResult option \<times> mongo" where
  "FindOne fault key db =
     (case fault of
        Some m \<Rightarrow> (Some (SR_err (CommandError m)), called Call_FindOne db)
      | None \<Rightarrow>
          (case find (\<lambda>d. d_id d = key) (documents db) of
             None \<Rightarrow> (Some (SR_err ErrNoDocuments), called Call_FindOne db)
           | Some d \<Rightarrow> (Some (SR_doc d), called Call_FindOne db)))"

text \<open>\<open>$set\<close> of text and completed on the first document with the key.\<close>

fun set_first :: "bson_id \<Rightarrow> string \<Rightarrow> bool \<Rightarrow> document list \<Rightarrow> document list" where
  "set_first key t c [] = []"
| "set_first key t c (d # ds) =
     (if d_id d = key then d\<lparr>d_text := t, d_completed := c\<rparr> # ds
      else d # set_first key t c ds)"

definition FindOneAndUpdate ::
  "string option \<Rightarrow> bson_id \<Rightarrow> string \<Rightarrow> bool \<Rightarrow> mongo \<Rightarrow> SingleResult \<times> mongo"
where
  "FindOneAndUpdate fault key t c db =
     (case fault of
        Some m \<Rightarrow> (SR_err (CommandError m), called Call_FindOneAndUpdate db)
      | None \<Rightarrow>
          (case find (\<lambda>d. d_id d = key) (documents db) of
             None \<Rightarrow> (SR_err ErrNoDocuments, called Call_FindOneAndUpdate db)
           | Some d \<Rightarrow>
               (SR_doc d,
                called Call_FindOneAndUpdate (db\<lparr>documents := set_first key t c (documents db)\<rparr>))))"

fun remove_first :: "bson_id \<Rightarrow> document list \<Rightarrow> document list" where
  "remove_first key [] = []"
| "remove_first key (d # ds) = (if d_id d = key then ds else d # remove_first key ds)"

text \<open>\<open>DeleteOne\<close> answers with \<open>DeletedCount\<close>.\<close>

definition DeleteOne :: "string option \<Rightarrow> bson_id \<Rightarrow> mongo \<Rightarrow> (error + int) \<times> mongo" where
  "DeleteOne fault key db =
     (case fault of
        Some m \<Rightarrow> (Inl (CommandError m), called Call_DeleteOne db)
      | None \<Rightarrow>
          (if key \<in> set (map d_id (documents db))
           then (Inr 1, called Call_DeleteOne (db\<lparr>documents := remove_first key (documents db)\<rparr>))
           else (Inr 0, called Call_DeleteOne db)))"

subsection \<open>Request bodies and Fiber's BodyParser\<close>

datatype json =
    JNull
  | JBool bool
  | JNumber int
  | JString string
  | JArray "json list"
  | JObject "(string \<times> json) list"

text \<open>
  A request body: one whose content type the parser does not handle, one of content type
  \<open>application/json\<close> that is no JSON text, or one that is a JSON value. The parser also
  decodes form, multipart and XML bodies; those are not among the bodies embedded here.
\<close>

datatype body = Unsupported | Invalid string | JSON json

datatype field = Field_id | Field_text | Field_completed

definition lower :: "char \<Rightarrow> char" where
  "lower c =
     (let n = (of_char c :: nat) in if 65 \<le> n \<and> n \<le> 90 then char_of (n + 32) else c)"

text \<open>
  encoding/json finds the field of a key by the names of the \<open>json\<close> tags of \<open>Todo\<close>,
  ignoring the case of letters.
\<close>

definition field_of_key :: "string \<Rightarrow> field option" where
  "field_of_key k =
     (let l = map lower k in
      if l = ''id'' then Some Field_id
      else if l = ''text'' then Some Field_text
      else if l = ''completed'' then Some Field_completed
      else None)"

fun kind :: "json \<Rightarrow> string" where
  "kind JNull = ''null''"
| "kind (JBool b) = ''bool''"
| "kind (JNumber n) = ''number''"
| "kind (JString s) = ''string''"
| "kind (JArray xs) = ''array''"
| "kind (JObject ms) = ''object''"

text \<open>The name of a field in its \<open>json\<close> tag, and its Go type.\<close>

fun field_name :: "field \<Rightarrow> string" where
  "field_name Field_id = ''id''"
| "field_name Field_text = ''text''"
| "field_name Field_completed = ''completed''"

fun field_type :: "field \<Rightarrow> string" where
  "field_type Field_id = ''string''"
| "field_type Field_text = ''string''"
| "field_type Field_completed = ''bool''"

text \<open>The decoder keeps the first error and goes on.\<close>

definition saveError :: "error option \<Rightarrow> error \<Rightarrow> error option" where
  "saveError saved e = (case saved of None \<Rightarrow> Some e | Some e0 \<Rightarrow> Some e0)"

text \<open>
  One member of a JSON object: an unknown key is skipped, \<open>null\<close> leaves the field as it
  is, a value of the field's type is stored, any other value is a type error.
\<close>

fun object_member :: "error option \<times> Todo \<Rightarrow> string \<times> json \<Rightarrow> error option \<times> Todo" where
  "object_member (saved, t) (k, v) =
     (case field_of_key k of
        None \<Rightarrow> (saved, t)
      | Some f \<Rightarrow>
          (case (f, v) of
             (_, JNull) \<Rightarrow> (saved, t)
           | (Field_id, JString s) \<Rightarrow> (saved, t\<lparr>ID := s\<rparr>)
           | (Field_text, JString s) \<Rightarrow> (saved, t\<lparr>Text := s\<rparr>)
           | (Field_completed, JBool b) \<Rightarrow> (saved, t\<lparr>Completed := b\<rparr>)
           | (_, _) \<Rightarrow>
               (saveError saved (UnmarshalTypeError (kind v) (field_name f) (field_type f)), t)))"

definition Unmarshal :: "json \<Rightarrow> Todo \<Rightarrow> error option \<times> Todo" where
  "Unmarshal j t =
     (case j of
        JNull \<Rightarrow> (None, t)
      | JObject ms \<Rightarrow> foldl object_member (None, t) ms
      | _ \<Rightarrow> (Some (UnmarshalTypeError (kind j) [] ''main.Todo''), t))"

definition BodyParser :: "body \<Rightarrow> Todo \<Rightarrow> error option \<times> Todo" where
  "BodyParser b out =
     (case b of
        Unsupported \<Rightarrow> (Some ErrUnprocessableEntity, out)
      | Invalid m \<Rightarrow> (Some (SyntaxError m), out)
      | JSON j \<Rightarrow> Unmarshal j out)"

subsection \<open>Responses\<close>

datatype payload =
    Empty
  | Plain string
  | JSON_Todo Todo
  | JSON_Todos "Todo list option"
  | Panicked

record response =
  status :: int
  payload :: payload

text \<open>
  \<open>SendStatus\<close> sets the status and, the handler having written no body, the text of the
  status as the body; a response of status 1xx, 204 or 304 goes out without a body.
  \<open>StatusMessage\<close> has the texts of the four statuses the handlers send this way.
  \<open>Status(s).SendString(m)\<close> and \<open>Status(s).JSON(v)\<close> set status and body; \<open>c.JSON(v)\<close>
  alone answers with the default status 200. A nil slice is marshalled as \<open>null\<close>, which
  \<open>JSON_Todos None\<close> stands for.
\<close>

definition StatusMessage :: "int \<Rightarrow> string" where
  "StatusMessage s =
     (if s = 204 then ''No Content''
      else if s = 400 then ''Bad Request''
      else if s = 404 then ''Not Found''
      else if s = 500 then ''Internal Server Error''
      else [])"

definition SendStatus :: "int \<Rightarrow> response" where
  "SendStatus s =
     \<lparr>status = s,
      payload = (if (100 \<le> s \<and> s < 200) \<or> s = 204 \<or> s = 304 then Empty
                 else Plain (StatusMessage s))\<rparr>"

definition SendString :: "int \<Rightarrow> string \<Rightarrow> response" where
  "SendString s m = \<lparr>status = s, payload = Plain m\<rparr>"

definition JSON_body :: "int \<Rightarrow> payload \<Rightarrow> response" where
  "JSON_body s v = \<lparr>status = s, payload = v\<rparr>"

text \<open>A method called on a nil pointer panics: the handler writes no response.\<close>

definition panic :: response where
  "panic = \<lparr>status = 0, payload = Panicked\<rparr>"

subsection \<open>The handlers\<close>

text \<open>
  \<open>app.Get("/")\<close>, lines 69 to 86. The query \<open>bson.D{{}}\<close> has one element, of the empty
  key and the value nil.
\<close>

definition Get_all :: "string option \<Rightarrow> string option \<Rightarrow> mongo \<Rightarrow> response \<times> mongo" where
  "Get_all fault_find fault_all db =
     (let query = [([], Null)] in
      case Find fault_find query db of
        (Inl err, db1) \<Rightarrow> (SendString 500 (Error err), db1)
      | (Inr cursor, db1) \<Rightarrow>
          (case cursor_All fault_all cursor (Some []) of
             (Some err, todos) \<Rightarrow> (SendString 500 (Error err), db1)
           | (None, todos) \<Rightarrow> (JSON_body 200 (JSON_Todos todos), db1)))"

text \<open>
  \<open>app.Post("/")\<close>, lines 90 to 119. The result of \<open>FindOne\<close> is not compared with
  nil here, and the error of \<open>Decode\<close> is dropped.
\<close>

definition Post ::
  "string option \<Rightarrow> ObjectID \<Rightarrow> string option \<Rightarrow> body \<Rightarrow> mongo \<Rightarrow> response \<times> mongo"
where
  "Post fault_insert generated fault_find b db =
     (case BodyParser b new_Todo of
        (Some err, todo) \<Rightarrow> (SendString 400 (Error err), db)
      | (None, todo0) \<Rightarrow>
          (let todo = todo0\<lparr>ID := []\<rparr> in
           case InsertOne fault_insert generated todo db of
             (Inl err, db1) \<Rightarrow> (SendString 500 (Error err), db1)
           | (Inr InsertedID, db1) \<Rightarrow>
               (case FindOne fault_find InsertedID db1 of
                  (None, db2) \<Rightarrow> (panic, db2)
                | (Some createdRecord, db2) \<Rightarrow>
                    (let createdTodo = snd (Decode createdRecord new_Todo)
                     in (JSON_body 201 (JSON_Todo createdTodo), db2)))))"

text \<open>\<open>app.Get("/:id")\<close>, lines 123 to 140. The error of \<open>Decode\<close> is dropped.\<close>

definition Get_id :: "string option \<Rightarrow> string \<Rightarrow> mongo \<Rightarrow> response \<times> mongo" where
  "Get_id fault idParam db =
     (case ObjectIDFromHex idParam of
        Inl err \<Rightarrow> (SendStatus 400, db)
      | Inr todoId \<Rightarrow>
          (case FindOne fault (ObjectIDValue todoId) db of
             (None, db1) \<Rightarrow> (SendString 404 ''Not found'', db1)
           | (Some record, db1) \<Rightarrow>
               (let todo = snd (Decode record new_Todo)
                in (JSON_body 200 (JSON_Todo todo), db1))))"

text \<open>\<open>app.Put("/:id")\<close>, lines 144 to 182.\<close>

definition Put :: "string option \<Rightarrow> string \<Rightarrow> body \<Rightarrow> mongo \<Rightarrow> response \<times> mongo" where
  "Put fault idParam b db =
     (case ObjectIDFromHex idParam of
        Inl err \<Rightarrow> (SendStatus 400, db)
      | Inr todoID \<Rightarrow>
          (case BodyParser b new_Todo of
             (Some err, todo) \<Rightarrow> (SendString 400 (Error err), db)
           | (None, todo) \<Rightarrow>
               (case FindOneAndUpdate fault (ObjectIDValue todoID) (Text todo) (Completed todo) db of
                  (r, db1) \<Rightarrow>
                    (case Err r of
                       Some err \<Rightarrow>
                         (if err = ErrNoDocuments then (SendStatus 404, db1)
                          else (SendStatus 500, db1))
                     | None \<Rightarrow> (JSON_body 200 (JSON_Todo (todo\<lparr>ID := idParam\<rparr>)), db1)))))"

text \<open>\<open>app.Delete("/:id")\<close>, lines 186 to 211.\<close>

definition Delete :: "string option \<Rightarrow> string \<Rightarrow> mongo \<Rightarrow> response \<times> mongo" where
  "Delete fault idParam db =
     (case ObjectIDFromHex idParam of
        Inl err \<Rightarrow> (SendStatus 400, db)
      | Inr todoID \<Rightarrow>
          (case DeleteOne fault (ObjectIDValue todoID) db of
             (Inl err, db1) \<Rightarrow> (SendStatus 500, db1)
           | (Inr DeletedCount, db1) \<Rightarrow>
               (if DeletedCount < 1 then (SendStatus 404, db1)
                else (SendStatus 204, db1))))"

subsection \<open>The shape of a record in a request body\<close>

text \<open>
  A member of a JSON object fits the \<open>Todo\<close> struct (lines 29 to 33) when its key names
  no field, or its value is \<open>null\<close> or of the type of the field it names: a string for
  \<open>id\<close> and \<open>text\<close>, a boolean for \<open>completed\<close>.
\<close>

definition member_fits :: "string \<times> json \<Rightarrow> bool" where
  "member_fits m =
     (case field_of_key (fst m) of
        None \<Rightarrow> True
      | Some Field_completed \<Rightarrow> (case snd m of JNull \<Rightarrow> True | JBool b \<Rightarrow> True | _ \<Rightarrow> False)
      | Some _ \<Rightarrow> (case snd m of JNull \<Rightarrow> True | JString s \<Rightarrow> True | _ \<Rightarrow> False))"

section \<open>Properties\<close>

subsection \<open>The hex form of an ObjectID\<close>

lemma fromHexChar_hextable: "k < 16 \<Longrightarrow> fromHexChar (hextable ! k) = Some (of_nat k)"
proof -
  assume "k < 16"
  then have "k = 0 \<or> k = 1 \<or> k = 2 \<or> k = 3 \<or> k = 4 \<or> k = 5 \<or> k = 6 \<or> k = 7
    \<or> k = 8 \<or> k = 9 \<or> k = 10 \<or> k = 11 \<or> k = 12 \<or> k = 13 \<or> k = 14 \<or> k = 15"
    by presburger
  then show ?thesis
    by (elim disjE) (simp_all add: hextable_def fromHexChar_def)
qed

lemma low_nibble: "(v :: byte) AND 15 = take_bit 4 v"
proof -
  have "(15 :: byte) = mask 4" by (simp add: mask_eq_exp_minus_1)
  then show ?thesis by (simp add: take_bit_eq_mask)
qed

lemma byte_nibbles: "push_bit 4 (drop_bit 4 v) OR (v AND 15) = (v :: byte)"
  unfolding low_nibble by (simp add: bit_eq_iff bit_simps) (auto simp: bit_simps)

lemma high_nibble_less: "unat (drop_bit 4 (v :: byte)) < 16"
proof -
  have "unat v < 256" using unsigned_less [of v] by simp
  moreover have "unat (drop_bit 4 v) = unat v div 16"
    by (simp add: drop_bit_eq_div unat_div)
  ultimately show ?thesis by simp
qed

lemma low_nibble_less: "unat ((v :: byte) AND 15) < 16"
  unfolding low_nibble by (simp add: take_bit_eq_mod unat_mod)

lemma DecodeString_EncodeToString: "DecodeString (EncodeToString vs) = Inr vs"
  by (induction vs) (simp_all add: fromHexChar_hextable high_nibble_less low_nibble_less byte_nibbles)

lemma length_EncodeToString: "length (EncodeToString vs) = 2 * length vs"
  by (induction vs) simp_all

lemma length_DecodeString: "DecodeString s = Inr b \<Longrightarrow> length s = 2 * length b"
  by (induction s arbitrary: b rule: DecodeString.induct)
    (auto split: option.splits sum.splits)

lemma digits_DecodeString: "DecodeString s = Inr b \<Longrightarrow> c \<in> set s \<Longrightarrow> fromHexChar c \<noteq> None"
  by (induction s arbitrary: b rule: DecodeString.induct)
    (auto split: option.splits sum.splits)

lemma ObjectIDFromHex_Hex: "length oid = 12 \<Longrightarrow> ObjectIDFromHex (Hex oid) = Inr oid"
  by (simp add: ObjectIDFromHex_def Hex_def length_EncodeToString DecodeString_EncodeToString)

lemma length_ObjectIDFromHex: "ObjectIDFromHex s = Inr oid \<Longrightarrow> length oid = 12"
  by (auto simp: ObjectIDFromHex_def dest: length_DecodeString split: if_splits sum.splits)

lemma ObjectIDFromHex_invalid:
  "length s \<noteq> 24 \<or> (\<exists>c \<in> set s. fromHexChar c = None) \<Longrightarrow> \<exists>err. ObjectIDFromHex s = Inl err"
  by (cases "ObjectIDFromHex s")
    (auto simp: ObjectIDFromHex_def dest: digits_DecodeString split: if_splits sum.splits)

lemma Hex_inject: "Hex a = Hex b \<Longrightarrow> a = b"
  by (metis DecodeString_EncodeToString Hex_def sum.inject(2))

lemma Hex_nonempty: "length oid = 12 \<Longrightarrow> Hex oid \<noteq> []"
  by (cases oid) (simp_all add: Hex_def)

subsection \<open>Looking up, replacing and removing in the collection\<close>

lemma find_None_iff_key: "find (\<lambda>d. d_id d = key) ds = None \<longleftrightarrow> key \<notin> d_id ` set ds"
  by (auto simp: find_None_iff)

lemma find_append_fresh:
  "key \<notin> d_id ` set ds \<Longrightarrow> d_id d = key \<Longrightarrow> find (\<lambda>x. d_id x = key) (ds @ [d]) = Some d"
  by (induction ds) auto

lemma length_remove_first:
  "key \<in> d_id ` set ds \<Longrightarrow> Suc (length (remove_first key ds)) = length ds"
  by (induction ds) auto

lemma remove_first_distinct:
  "distinct (map d_id ds) \<Longrightarrow> key \<notin> d_id ` set (remove_first key ds)"
  by (induction ds) auto

lemma map_d_id_set_first: "map d_id (set_first key t c ds) = map d_id ds"
  by (induction ds) simp_all

lemma set_first_other:
  "i < length ds \<Longrightarrow> d_id (ds ! i) \<noteq> key \<Longrightarrow> set_first key t c ds ! i = ds ! i"
proof (induction ds arbitrary: i)
  case Nil
  then show ?case by simp
next
  case (Cons d ds)
  then show ?case by (cases i) auto
qed

lemma find_set_first:
  "find (\<lambda>x. d_id x = key) ds = Some d \<Longrightarrow>
   find (\<lambda>x. d_id x = key) (set_first key t c ds) = Some (d\<lparr>d_text := t, d_completed := c\<rparr>)"
  by (induction ds) (auto split: if_splits)

lemma find_Some_key: "find (\<lambda>x. d_id x = key) ds = Some d \<Longrightarrow> d_id d = key"
  by (induction ds) (auto split: if_splits)

subsection \<open>Decoding a JSON object into a Todo\<close>

lemma object_member_fits:
  "member_fits m \<Longrightarrow> fst (object_member (saved, t) m) = saved"
  by (cases m) (auto simp: member_fits_def split: option.splits field.splits json.splits)

lemma object_member_misfit:
  "\<not> member_fits m \<Longrightarrow> fst (object_member (saved, t) m) \<noteq> None"
  by (cases m) (auto simp: member_fits_def saveError_def split: option.splits field.splits json.splits)

lemma object_member_saved:
  "fst (object_member (Some e, t) m) = Some e"
  by (cases m) (auto simp: saveError_def split: option.splits field.splits json.splits)

lemma foldl_object_member_saved:
  "fst (foldl object_member (Some e, t) ms) = Some e"
proof (induction ms arbitrary: t)
  case Nil
  then show ?case by simp
next
  case (Cons m ms)
  obtain t' where "object_member (Some e, t) m = (Some e, t')"
    using object_member_saved [of e t m] by (cases "object_member (Some e, t) m") simp
  with Cons show ?case by simp
qed

lemma foldl_object_member_error:
  "fst (foldl object_member (None, t) ms) = None \<longleftrightarrow> list_all member_fits ms"
proof (induction ms arbitrary: t)
  case Nil
  then show ?case by simp
next
  case (Cons m ms)
  obtain s t' where step: "object_member (None, t) m = (s, t')"
    by (cases "object_member (None, t) m")
  show ?case
  proof (cases "member_fits m")
    case True
    with step object_member_fits [of m None t] have "s = None" by simp
    with step Cons True show ?thesis by simp
  next
    case False
    with step object_member_misfit [of m None t] obtain e where "s = Some e" by auto
    with step False show ?thesis by (simp add: foldl_object_member_saved)
  qed
qed

lemma object_member_Text:
  "field_of_key (fst m) \<noteq> Some Field_text \<Longrightarrow> Text (snd (object_member (saved, t) m)) = Text t"
  by (cases m) (auto split: option.splits field.splits json.splits)

lemma object_member_Completed:
  "field_of_key (fst m) \<noteq> Some Field_completed \<Longrightarrow>
   Completed (snd (object_member (saved, t) m)) = Completed t"
  by (cases m) (auto split: option.splits field.splits json.splits)

lemma foldl_object_member_Text:
  "\<forall>m \<in> set ms. field_of_key (fst m) \<noteq> Some Field_text \<Longrightarrow>
   Text (snd (foldl object_member (saved, t) ms)) = Text t"
proof (induction ms arbitrary: saved t)
  case Nil
  then show ?case by simp
next
  case (Cons m ms)
  obtain s t' where step: "object_member (saved, t) m = (s, t')"
    by (cases "object_member (saved, t) m")
  with object_member_Text [of m saved t] Cons.prems have "Text t' = Text t" by simp
  with Cons step show ?case by simp
qed

lemma foldl_object_member_Completed:
  "\<forall>m \<in> set ms. field_of_key (fst m) \<noteq> Some Field_completed \<Longrightarrow>
   Completed (snd (foldl object_member (saved, t) ms)) = Completed t"
proof (induction ms arbitrary: saved t)
  case Nil
  then show ?case by simp
next
  case (Cons m ms)
  obtain s t' where step: "object_member (saved, t) m = (s, t')"
    by (cases "object_member (saved, t) m")
  with object_member_Completed [of m saved t] Cons.prems have "Completed t' = Completed t" by simp
  with Cons step show ?case by simp
qed

lemma BodyParser_object_accepted_iff:
  "fst (BodyParser (JSON (JObject ms)) new_Todo) = None \<longleftrightarrow> list_all member_fits ms"
  by (simp add: BodyParser_def Unmarshal_def foldl_object_member_error)

subsection \<open>A well-formed id and a well-formed body\<close>

lemma example_ObjectID:
  "ObjectIDFromHex ''0102030405060708090a0b0c'' = Inr [1, 2, 3, 4, 5, 6, 7, 8, 9, 10, 11, 12]"
  by (simp add: ObjectIDFromHex_def fromHexChar_def)

lemma example_body:
  "BodyParser (JSON (JObject [(''text'', JString ''buy milk''), (''completed'', JBool True)]))
     new_Todo = (None, \<lparr>ID = [], Text = ''buy milk'', Completed = True\<rparr>)"
  by (simp add: BodyParser_def Unmarshal_def field_of_key_def lower_def new_Todo_def)

subsection \<open>Fetching one record\<close>

lemma Get_id_valid_status:
  "ObjectIDFromHex idParam = Inr todoId \<Longrightarrow> status (fst (Get_id fault idParam db)) = 200"
  by (simp add: Get_id_def FindOne_def JSON_body_def split: option.splits)

text \<open>
  C1. The claim: a GET of /:id with a well-formed id that no record has is answered with
  404. The handler compares the result of \<open>FindOne\<close> with nil, which it never is, and
  drops the error of \<open>Decode\<close>: on the empty collection the id of twenty-four zeros is
  answered with 200 and the zero value of \<open>Todo\<close>. By \<open>Get_id_valid_status\<close> the same
  status is given for every well-formed id.
\<close>

theorem Get_id_absent_record_200:
  "Get_id None ''000000000000000000000000'' \<lparr>documents = [], calls = []\<rparr> =
     (\<lparr>status = 200, payload = JSON_Todo \<lparr>ID = [], Text = [], Completed = False\<rparr>\<rparr>,
      \<lparr>documents = [], calls = [Call_FindOne]\<rparr>)"
  by (simp add: Get_id_def ObjectIDFromHex_def fromHexChar_def FindOne_def called_def
      Decode_def new_Todo_def JSON_body_def)

subsection \<open>Ids that are no ObjectID\<close>

text \<open>
  C2. An id that is not twenty-four hex digits is answered with 400 by GET /:id, PUT /:id
  and DELETE /:id, whatever the body and whatever the store would do, and the collection
  with its log of driver calls is returned as it was: no method of the driver is called.
\<close>

theorem invalid_id_400:
  assumes "length idParam \<noteq> 24 \<or> (\<exists>c \<in> set idParam. fromHexChar c = None)"
  shows "Get_id fault idParam db = (SendStatus 400, db)
    \<and> Put fault idParam b db = (SendStatus 400, db)
    \<and> Delete fault idParam db = (SendStatus 400, db)
    \<and> status (SendStatus 400) = 400"
proof -
  from assms obtain err where "ObjectIDFromHex idParam = Inl err"
    using ObjectIDFromHex_invalid by blast
  then show ?thesis
    by (simp add: Get_id_def Put_def Delete_def SendStatus_def)
qed

theorem invalid_id_400_witness:
  "Get_id None ''buy-milk'' \<lparr>documents = [], calls = []\<rparr>
      = (SendStatus 400, \<lparr>documents = [], calls = []\<rparr>)
    \<and> Put None ''buy-milk'' Unsupported \<lparr>documents = [], calls = []\<rparr>
      = (SendStatus 400, \<lparr>documents = [], calls = []\<rparr>)
    \<and> Delete None ''buy-milk'' \<lparr>documents = [], calls = []\<rparr>
      = (SendStatus 400, \<lparr>documents = [], calls = []\<rparr>)
    \<and> status (SendStatus 400) = 400"
  using invalid_id_400 [of "''buy-milk''" None "\<lparr>documents = [], calls = []\<rparr>" Unsupported]
  by simp

subsection \<open>Listing\<close>

lemma matches_empty_key: "matches [([], Null)] d"
  by (simp add: matches_def field_value_def)

lemma Find_empty_key:
  "Find None [([], Null)] db = (Inr (documents db), called Call_Find db)"
  by (simp add: Find_def matches_empty_key)

text \<open>
  C9. GET / answers a listing that the store serves with 200 and the array of all records
  of the collection, in the order the store yields them, each with the id (in hex when it
  is an ObjectID), the text and the completed flag of its document; the slice starts as
  \<open>make([]Todo, 0)\<close>, so the empty collection gives the empty array and not \<open>null\<close>. A
  failure of the store is the only way to another answer, which is 500 with its message.
  The last part is the listing of a collection of two records.
\<close>

theorem Get_all_lists_collection:
  "Get_all fault_find fault_all db =
     (case fault_find of
        Some m \<Rightarrow> (\<lparr>status = 500, payload = Plain m\<rparr>, called Call_Find db)
      | None \<Rightarrow>
          (case fault_all of
             Some m \<Rightarrow> (\<lparr>status = 500, payload = Plain m\<rparr>, called Call_Find db)
           | None \<Rightarrow>
               (\<lparr>status = 200,
                 payload = JSON_Todos (Some (map
                   (\<lambda>d. \<lparr>ID = (case d_id d of ObjectIDValue oid \<Rightarrow> Hex oid | StringValue s \<Rightarrow> s),
                         Text = d_text d, Completed = d_completed d\<rparr>)
                   (documents db)))\<rparr>,
                called Call_Find db)))
   \<and> Get_all None None \<lparr>documents = [], calls = cs\<rparr> =
       (\<lparr>status = 200, payload = JSON_Todos (Some [])\<rparr>,
        \<lparr>documents = [], calls = cs @ [Call_Find]\<rparr>)
   \<and> Get_all None None
       \<lparr>documents = [\<lparr>d_id = ObjectIDValue [1, 2, 3, 4, 5, 6, 7, 8, 9, 10, 11, 13],
                        d_text = ''call home'', d_completed = True\<rparr>,
                       \<lparr>d_id = ObjectIDValue [1, 2, 3, 4, 5, 6, 7, 8, 9, 10, 11, 12],
                        d_text = ''buy milk'', d_completed = False\<rparr>],
        calls = []\<rparr> =
       (\<lparr>status = 200,
         payload = JSON_Todos (Some
           [\<lparr>ID = ''0102030405060708090a0b0d'', Text = ''call home'', Completed = True\<rparr>,
            \<lparr>ID = ''0102030405060708090a0b0c'', Text = ''buy milk'', Completed = False\<rparr>])\<rparr>,
        \<lparr>documents = [\<lparr>d_id = ObjectIDValue [1, 2, 3, 4, 5, 6, 7, 8, 9, 10, 11, 13],
                         d_text = ''call home'', d_completed = True\<rparr>,
                        \<lparr>d_id = ObjectIDValue [1, 2, 3, 4, 5, 6, 7, 8, 9, 10, 11, 12],
                         d_text = ''buy milk'', d_completed = False\<rparr>],
         calls = [Call_Find]\<rparr>)"
proof -
  have served: "Get_all None None db' =
      (\<lparr>status = 200,
        payload = JSON_Todos (Some (map
          (\<lambda>d. \<lparr>ID = (case d_id d of ObjectIDValue oid \<Rightarrow> Hex oid | StringValue s \<Rightarrow> s),
                Text = d_text d, Completed = d_completed d\<rparr>)
          (documents db')))\<rparr>,
       called Call_Find db')" for db'
    by (cases "documents db' = []")
      (simp_all add: Get_all_def Find_empty_key cursor_All_def JSON_body_def
        Todo_of_document_def)
  have failed_find: "Get_all (Some m) fault_all db =
      (\<lparr>status = 500, payload = Plain m\<rparr>, called Call_Find db)" for m
    by (simp add: Get_all_def Find_def SendString_def)
  have failed_all: "Get_all None (Some m) db =
      (\<lparr>status = 500, payload = Plain m\<rparr>, called Call_Find db)" for m
    by (simp add: Get_all_def Find_empty_key cursor_All_def SendString_def)
  show ?thesis
    by (simp add: served failed_find failed_all called_def Hex_def hextable_def
        split: option.splits)
qed

subsection \<open>Creating\<close>

text \<open>
  What an answer 201 of POST / tells: the body was parsed, the insert was not refused, the
  document with the generated ObjectID was appended, and the record in the answer is the
  one fetched back, or the zero value when fetching it back failed.
\<close>

lemma Post_201_cases:
  assumes "Post fault_insert generated fault_find b db = (r, db')" and "status r = 201"
  obtains todo where "BodyParser b new_Todo = (None, todo)" "fault_insert = None"
    "ObjectIDValue generated \<notin> d_id ` set (documents db)"
    "db' = called Call_FindOne (called Call_InsertOne (db\<lparr>documents := documents db @
        [\<lparr>d_id = ObjectIDValue generated, d_text = Text todo, d_completed = Completed todo\<rparr>]\<rparr>))"
    "payload r = JSON_Todo (case fault_find of Some m \<Rightarrow> new_Todo
        | None \<Rightarrow> \<lparr>ID = Hex generated, Text = Text todo, Completed = Completed todo\<rparr>)"
proof -
  obtain e todo where bp: "BodyParser b new_Todo = (e, todo)" by (cases "BodyParser b new_Todo")
  with assms have e: "e = None"
    by (cases e) (auto simp: Post_def SendString_def)
  from assms bp e have fi: "fault_insert = None"
    by (cases fault_insert) (auto simp: Post_def InsertOne_def SendString_def)
  from assms bp e fi have fresh: "ObjectIDValue generated \<notin> d_id ` set (documents db)"
    by (auto simp: Post_def InsertOne_def SendString_def Let_def split: if_splits)
  let ?d = "\<lparr>d_id = ObjectIDValue generated, d_text = Text todo, d_completed = Completed todo\<rparr>"
  have f: "find (\<lambda>x. d_id x = ObjectIDValue generated) (documents db @ [?d]) = Some ?d"
    using fresh by (simp add: find_append_fresh)
  from assms bp e fi fresh f
  have "db' = called Call_FindOne (called Call_InsertOne (db\<lparr>documents := documents db @ [?d]\<rparr>))"
    by (cases fault_find)
      (auto simp: Post_def InsertOne_def FindOne_def Let_def called_def JSON_body_def image_iff)
  moreover from assms bp e fi fresh f
  have "payload r = JSON_Todo (case fault_find of Some m \<Rightarrow> new_Todo
        | None \<Rightarrow> \<lparr>ID = Hex generated, Text = Text todo, Completed = Completed todo\<rparr>)"
    by (cases fault_find)
      (auto simp: Post_def InsertOne_def FindOne_def Let_def called_def JSON_body_def image_iff
        Decode_def Todo_of_document_def)
  ultimately show thesis using that bp e fi fresh by blast
qed

text \<open>
  C3. Round trip: when POST / answers 201 with a record that has an id, a GET of that id on
  the resulting collection (the store serving the query) answers 200 with the same
  record: the same id, and the text and completed flag of the request body.
\<close>

theorem Post_Get_roundtrip:
  assumes "Post fault_insert generated fault_find b db = (r, db')"
    and "status r = 201" and "payload r = JSON_Todo created" and "ID created \<noteq> []"
    and "length generated = 12"
  shows "\<exists>todo. BodyParser b new_Todo = (None, todo)
    \<and> Text created = Text todo \<and> Completed created = Completed todo
    \<and> ID created = Hex generated
    \<and> Get_id None (ID created) db' =
        (\<lparr>status = 200, payload = JSON_Todo created\<rparr>, called Call_FindOne db')"
proof -
  from assms(1,2) obtain todo where bp: "BodyParser b new_Todo = (None, todo)"
    and fresh: "ObjectIDValue generated \<notin> d_id ` set (documents db)"
    and db': "db' = called Call_FindOne (called Call_InsertOne (db\<lparr>documents := documents db @
        [\<lparr>d_id = ObjectIDValue generated, d_text = Text todo, d_completed = Completed todo\<rparr>]\<rparr>))"
    and p: "payload r = JSON_Todo (case fault_find of Some m \<Rightarrow> new_Todo
        | None \<Rightarrow> \<lparr>ID = Hex generated, Text = Text todo, Completed = Completed todo\<rparr>)"
    by (rule Post_201_cases)
  from p assms(3,4) have c: "created = \<lparr>ID = Hex generated, Text = Text todo, Completed = Completed todo\<rparr>"
    by (cases fault_find) (auto simp: new_Todo_def)
  let ?d = "\<lparr>d_id = ObjectIDValue generated, d_text = Text todo, d_completed = Completed todo\<rparr>"
  have f: "find (\<lambda>x. d_id x = ObjectIDValue generated) (documents db @ [?d]) = Some ?d"
    using fresh by (simp add: find_append_fresh)
  have "Get_id None (Hex generated) db' =
        (\<lparr>status = 200, payload = JSON_Todo created\<rparr>, called Call_FindOne db')"
    using f assms(5)
    by (simp add: Get_id_def ObjectIDFromHex_Hex FindOne_def db' called_def Decode_def
        Todo_of_document_def JSON_body_def c)
  with bp c show ?thesis by simp
qed

theorem Post_Get_roundtrip_witness:
  "Post None [1, 2, 3, 4, 5, 6, 7, 8, 9, 10, 11, 12] None
     (JSON (JObject [(''text'', JString ''X''), (''completed'', JBool False)]))
     \<lparr>documents = [], calls = []\<rparr> =
   (\<lparr>status = 201,
     payload = JSON_Todo \<lparr>ID = ''0102030405060708090a0b0c'', Text = ''X'', Completed = False\<rparr>\<rparr>,
    \<lparr>documents = [\<lparr>d_id = ObjectIDValue [1, 2, 3, 4, 5, 6, 7, 8, 9, 10, 11, 12],
                     d_text = ''X'', d_completed = False\<rparr>],
     calls = [Call_InsertOne, Call_FindOne]\<rparr>)
   \<and> Get_id None ''0102030405060708090a0b0c''
       \<lparr>documents = [\<lparr>d_id = ObjectIDValue [1, 2, 3, 4, 5, 6, 7, 8, 9, 10, 11, 12],
                        d_text = ''X'', d_completed = False\<rparr>],
        calls = [Call_InsertOne, Call_FindOne]\<rparr> =
   (\<lparr>status = 200,
     payload = JSON_Todo \<lparr>ID = ''0102030405060708090a0b0c'', Text = ''X'', Completed = False\<rparr>\<rparr>,
    \<lparr>documents = [\<lparr>d_id = ObjectIDValue [1, 2, 3, 4, 5, 6, 7, 8, 9, 10, 11, 12],
                     d_text = ''X'', d_completed = False\<rparr>],
     calls = [Call_InsertOne, Call_FindOne, Call_FindOne]\<rparr>)"
proof -
  have post: "Post None [1, 2, 3, 4, 5, 6, 7, 8, 9, 10, 11, 12] None
     (JSON (JObject [(''text'', JString ''X''), (''completed'', JBool False)]))
     \<lparr>documents = [], calls = []\<rparr> =
   (\<lparr>status = 201,
     payload = JSON_Todo \<lparr>ID = ''0102030405060708090a0b0c'', Text = ''X'', Completed = False\<rparr>\<rparr>,
    \<lparr>documents = [\<lparr>d_id = ObjectIDValue [1, 2, 3, 4, 5, 6, 7, 8, 9, 10, 11, 12],
                     d_text = ''X'', d_completed = False\<rparr>],
     calls = [Call_InsertOne, Call_FindOne]\<rparr>)"
    by (simp add: Post_def BodyParser_def Unmarshal_def field_of_key_def lower_def new_Todo_def
        InsertOne_def FindOne_def Decode_def called_def JSON_body_def Let_def Hex_def
        hextable_def Todo_of_document_def)
  show ?thesis
    using post Post_Get_roundtrip [OF post, of
        "\<lparr>ID = ''0102030405060708090a0b0c'', Text = ''X'', Completed = False\<rparr>"]
    by (auto simp add: called_def)
qed

text \<open>
  C4. The claim: POST / discards the id of the request body, and the id of the inserted
  record in the answer is not empty and differs from all ids assigned before. The id of
  the body is discarded (line 101), but when fetching the inserted record back fails, the
  error of \<open>Decode\<close> at line 115 is dropped: the record is stored under the generated
  ObjectID and the answer is 201 with the zero value of \<open>Todo\<close>, whose id is empty.
\<close>

theorem Post_failed_refetch_empty_id:
  "Post None [0, 0, 0, 0, 0, 0, 0, 0, 0, 0, 0, 7] (Some ''socket closed'')
     (JSON (JObject [(''id'', JString ''mine''), (''text'', JString ''X'')]))
     \<lparr>documents = [], calls = []\<rparr> =
   (\<lparr>status = 201, payload = JSON_Todo \<lparr>ID = [], Text = [], Completed = False\<rparr>\<rparr>,
    \<lparr>documents = [\<lparr>d_id = ObjectIDValue [0, 0, 0, 0, 0, 0, 0, 0, 0, 0, 0, 7],
                     d_text = ''X'', d_completed = False\<rparr>],
     calls = [Call_InsertOne, Call_FindOne]\<rparr>)"
  by (simp add: Post_def BodyParser_def Unmarshal_def field_of_key_def lower_def new_Todo_def
      InsertOne_def FindOne_def Decode_def called_def JSON_body_def Let_def)

text \<open>
  With a body that parses and a store that serves both calls, the answer and the stored
  document depend on the text and the completed flag of the body alone, the id in the
  answer is the hex form of the generated ObjectID, which is not empty, and it differs
  from the id of every record that was in the collection.
\<close>

lemma Post_returns_store_id:
  assumes "BodyParser b new_Todo = (None, todo)"
    and "Post fault_insert generated None b db = (r, db')"
    and "status r = 201"
    and "length generated = 12"
  shows "payload r = JSON_Todo \<lparr>ID = Hex generated, Text = Text todo, Completed = Completed todo\<rparr>
    \<and> documents db' = documents db @
          [\<lparr>d_id = ObjectIDValue generated, d_text = Text todo, d_completed = Completed todo\<rparr>]
    \<and> (\<forall>b' todo'. BodyParser b' new_Todo = (None, todo') \<and> Text todo' = Text todo
            \<and> Completed todo' = Completed todo
          \<longrightarrow> Post fault_insert generated None b' db = (r, db'))
    \<and> Hex generated \<noteq> []
    \<and> (\<forall>d \<in> set (documents db). d_id d \<noteq> ObjectIDValue generated)
    \<and> (\<forall>d \<in> set (documents db). \<forall>oid. d_id d = ObjectIDValue oid
          \<longrightarrow> ID (Todo_of_document d) \<noteq> Hex generated)"
proof -
  from assms(2,3) obtain todo1 where bp: "BodyParser b new_Todo = (None, todo1)"
    and fresh: "ObjectIDValue generated \<notin> d_id ` set (documents db)"
    and db': "db' = called Call_FindOne (called Call_InsertOne (db\<lparr>documents := documents db @
        [\<lparr>d_id = ObjectIDValue generated, d_text = Text todo1, d_completed = Completed todo1\<rparr>]\<rparr>))"
    and p: "payload r = JSON_Todo (case None :: string option of Some m \<Rightarrow> new_Todo
        | None \<Rightarrow> \<lparr>ID = Hex generated, Text = Text todo1, Completed = Completed todo1\<rparr>)"
    by (rule Post_201_cases)
  from bp assms(1) have t: "todo1 = todo" by simp
  have 1: "payload r = JSON_Todo \<lparr>ID = Hex generated, Text = Text todo, Completed = Completed todo\<rparr>"
    using p t by simp
  have 2: "documents db' = documents db @
          [\<lparr>d_id = ObjectIDValue generated, d_text = Text todo, d_completed = Completed todo\<rparr>]"
    using db' t by (simp add: called_def)
  have 3: "Post fault_insert generated None b' db = (r, db')"
    if "BodyParser b' new_Todo = (None, todo')" "Text todo' = Text todo"
      "Completed todo' = Completed todo" for b' todo'
  proof -
    have "Post fault_insert generated None b' db = Post fault_insert generated None b db"
      using that assms(1) by (cases fault_insert) (simp_all add: Post_def InsertOne_def Let_def)
    with assms(2) show ?thesis by simp
  qed
  have 4: "Hex generated \<noteq> []" using assms(4) by (rule Hex_nonempty)
  have 5: "\<forall>d \<in> set (documents db). d_id d \<noteq> ObjectIDValue generated"
    using fresh by (metis imageI)
  have 6: "\<forall>d \<in> set (documents db). \<forall>oid. d_id d = ObjectIDValue oid
          \<longrightarrow> ID (Todo_of_document d) \<noteq> Hex generated"
    using 5 by (auto simp: Todo_of_document_def dest: Hex_inject)
  from 1 2 3 4 5 6 show ?thesis by blast
qed

lemma Post_returns_store_id_example:
  "payload (fst (Post None [1, 2, 3, 4, 5, 6, 7, 8, 9, 10, 11, 13] None
     (JSON (JObject [(''id'', JString ''mine''), (''text'', JString ''buy milk'')]))
     \<lparr>documents = [\<lparr>d_id = ObjectIDValue [1, 2, 3, 4, 5, 6, 7, 8, 9, 10, 11, 12],
                      d_text = ''X'', d_completed = False\<rparr>], calls = []\<rparr>)) =
     JSON_Todo \<lparr>ID = Hex [1, 2, 3, 4, 5, 6, 7, 8, 9, 10, 11, 13], Text = ''buy milk'',
               Completed = False\<rparr>
   \<and> documents (snd (Post None [1, 2, 3, 4, 5, 6, 7, 8, 9, 10, 11, 13] None
     (JSON (JObject [(''id'', JString ''mine''), (''text'', JString ''buy milk'')]))
     \<lparr>documents = [\<lparr>d_id = ObjectIDValue [1, 2, 3, 4, 5, 6, 7, 8, 9, 10, 11, 12],
                      d_text = ''X'', d_completed = False\<rparr>], calls = []\<rparr>)) =
     [\<lparr>d_id = ObjectIDValue [1, 2, 3, 4, 5, 6, 7, 8, 9, 10, 11, 12],
       d_text = ''X'', d_completed = False\<rparr>,
      \<lparr>d_id = ObjectIDValue [1, 2, 3, 4, 5, 6, 7, 8, 9, 10, 11, 13],
       d_text = ''buy milk'', d_completed = False\<rparr>]
   \<and> Hex [1, 2, 3, 4, 5, 6, 7, 8, 9, 10, 11, 13] \<noteq> []
   \<and> Hex [1, 2, 3, 4, 5, 6, 7, 8, 9, 10, 11, 12] \<noteq> Hex [1, 2, 3, 4, 5, 6, 7, 8, 9, 10, 11, 13]"
proof -
  let ?b = "JSON (JObject [(''id'', JString ''mine''), (''text'', JString ''buy milk'')])"
  let ?db = "\<lparr>documents = [\<lparr>d_id = ObjectIDValue [1, 2, 3, 4, 5, 6, 7, 8, 9, 10, 11, 12],
                      d_text = ''X'', d_completed = False\<rparr>], calls = []\<rparr>"
  have bp: "BodyParser ?b new_Todo = (None, \<lparr>ID = ''mine'', Text = ''buy milk'', Completed = False\<rparr>)"
    by (simp add: BodyParser_def Unmarshal_def field_of_key_def lower_def new_Todo_def)
  obtain r db' where post: "Post None [1, 2, 3, 4, 5, 6, 7, 8, 9, 10, 11, 13] None ?b ?db = (r, db')"
    by (cases "Post None [1, 2, 3, 4, 5, 6, 7, 8, 9, 10, 11, 13] None ?b ?db")
  have st: "status r = 201"
    using post
    by (auto simp add: Post_def BodyParser_def Unmarshal_def field_of_key_def lower_def new_Todo_def
        InsertOne_def FindOne_def Decode_def called_def JSON_body_def Let_def)
  show ?thesis
    using Post_returns_store_id [OF bp post st] post
    by (simp add: Todo_of_document_def)
qed

text \<open>
  C10. Once \<open>InsertOne\<close> has succeeded the answer is 201, whatever becomes of fetching the
  record back; when that fails, the error of \<open>Decode\<close> is dropped and the body of the
  answer is the zero value of \<open>Todo\<close>.
\<close>

theorem Post_201_after_insert:
  assumes "BodyParser b new_Todo = (None, todo0)"
    and "InsertOne fault_insert generated (todo0\<lparr>ID := []\<rparr>) db = (Inr InsertedID, db1)"
  shows "status (fst (Post fault_insert generated fault_find b db)) = 201
    \<and> Post fault_insert generated (Some m) b db =
        (\<lparr>status = 201, payload = JSON_Todo \<lparr>ID = [], Text = [], Completed = False\<rparr>\<rparr>,
         called Call_FindOne db1)"
  using assms
  by (simp add: Post_def FindOne_def Decode_def new_Todo_def JSON_body_def
      split: option.splits)

theorem Post_201_after_insert_witness:
  "status (fst (Post None [1, 2, 3, 4, 5, 6, 7, 8, 9, 10, 11, 12] None
       (JSON (JObject [(''text'', JString ''buy milk'')])) \<lparr>documents = [], calls = []\<rparr>)) = 201
   \<and> Post None [1, 2, 3, 4, 5, 6, 7, 8, 9, 10, 11, 12] (Some ''connection reset'')
       (JSON (JObject [(''text'', JString ''buy milk'')])) \<lparr>documents = [], calls = []\<rparr> =
      (\<lparr>status = 201, payload = JSON_Todo \<lparr>ID = [], Text = [], Completed = False\<rparr>\<rparr>,
       \<lparr>documents = [\<lparr>d_id = ObjectIDValue [1, 2, 3, 4, 5, 6, 7, 8, 9, 10, 11, 12],
                        d_text = ''buy milk'', d_completed = False\<rparr>],
        calls = [Call_InsertOne, Call_FindOne]\<rparr>)"
proof -
  have p: "BodyParser (JSON (JObject [(''text'', JString ''buy milk'')])) new_Todo =
      (None, \<lparr>ID = [], Text = ''buy milk'', Completed = False\<rparr>)"
    by (simp add: BodyParser_def Unmarshal_def field_of_key_def lower_def new_Todo_def)
  have i: "InsertOne None [1, 2, 3, 4, 5, 6, 7, 8, 9, 10, 11, 12]
      (\<lparr>ID = [], Text = ''buy milk'', Completed = False\<rparr>\<lparr>ID := []\<rparr>)
      \<lparr>documents = [], calls = []\<rparr> =
      (Inr (ObjectIDValue [1, 2, 3, 4, 5, 6, 7, 8, 9, 10, 11, 12]),
       \<lparr>documents = [\<lparr>d_id = ObjectIDValue [1, 2, 3, 4, 5, 6, 7, 8, 9, 10, 11, 12],
                        d_text = ''buy milk'', d_completed = False\<rparr>],
        calls = [Call_InsertOne]\<rparr>)"
    by (simp add: InsertOne_def called_def Let_def)
  show ?thesis
    using Post_201_after_insert [OF p i, of None "''connection reset''"]
    by (simp add: called_def)
qed

subsection \<open>Request bodies\<close>

lemma Post_parsed_not_400:
  "BodyParser b new_Todo = (None, todo) \<Longrightarrow>
   status (fst (Post fault_insert generated fault_find b db)) \<noteq> 400"
  by (auto simp: Post_def InsertOne_def FindOne_def Let_def SendString_def JSON_body_def
      split: option.splits)

lemma Put_parsed_not_400:
  "ObjectIDFromHex idParam = Inr todoID \<Longrightarrow> BodyParser b new_Todo = (None, todo) \<Longrightarrow>
   status (fst (Put fault idParam b db)) \<noteq> 400"
  by (auto simp: Put_def FindOneAndUpdate_def Err_def SendStatus_def JSON_body_def
      split: option.splits)

text \<open>
  C7. A JSON object whose members fit the \<open>Todo\<close> struct is parsed without error by POST /
  and PUT /:id, whichever fields it has: without a \<open>text\<close> member the text is empty,
  without a \<open>completed\<close> member the flag is false, and the answer is not the 400 of a
  body that cannot be decoded. A body on which the parser reports an error is answered
  with 400 by both handlers.
\<close>

theorem BodyParser_no_required_field:
  assumes "list_all member_fits ms"
  shows "\<exists>todo. BodyParser (JSON (JObject ms)) new_Todo = (None, todo)
      \<and> ((\<forall>m \<in> set ms. field_of_key (fst m) \<noteq> Some Field_text) \<longrightarrow> Text todo = [])
      \<and> ((\<forall>m \<in> set ms. field_of_key (fst m) \<noteq> Some Field_completed) \<longrightarrow> Completed todo = False)
      \<and> status (fst (Post fault_insert generated fault_find (JSON (JObject ms)) db)) \<noteq> 400
      \<and> (\<forall>todoID. ObjectIDFromHex idParam = Inr todoID \<longrightarrow>
            status (fst (Put fault idParam (JSON (JObject ms)) db)) \<noteq> 400)
      \<and> (\<forall>b err out. BodyParser b new_Todo = (Some err, out) \<longrightarrow>
            status (fst (Post fault_insert generated fault_find b db)) = 400
            \<and> status (fst (Put fault idParam b db)) = 400)"
proof -
  obtain e todo where r: "foldl object_member (None, new_Todo) ms = (e, todo)"
    by (cases "foldl object_member (None, new_Todo) ms")
  with assms foldl_object_member_error [of new_Todo ms] have e: "e = None" by simp
  have bp: "BodyParser (JSON (JObject ms)) new_Todo = (None, todo)"
    using r e by (simp add: BodyParser_def Unmarshal_def)
  have t: "(\<forall>m \<in> set ms. field_of_key (fst m) \<noteq> Some Field_text) \<longrightarrow> Text todo = []"
    using foldl_object_member_Text [of ms None new_Todo] r by (simp add: new_Todo_def)
  have c: "(\<forall>m \<in> set ms. field_of_key (fst m) \<noteq> Some Field_completed) \<longrightarrow> Completed todo = False"
    using foldl_object_member_Completed [of ms None new_Todo] r by (simp add: new_Todo_def)
  have post: "status (fst (Post fault_insert generated fault_find (JSON (JObject ms)) db)) \<noteq> 400"
    using bp by (rule Post_parsed_not_400)
  have put: "\<forall>todoID. ObjectIDFromHex idParam = Inr todoID \<longrightarrow>
            status (fst (Put fault idParam (JSON (JObject ms)) db)) \<noteq> 400"
    using bp by (auto dest: Put_parsed_not_400)
  have bad: "\<forall>b err out. BodyParser b new_Todo = (Some err, out) \<longrightarrow>
            status (fst (Post fault_insert generated fault_find b db)) = 400
            \<and> status (fst (Put fault idParam b db)) = 400"
    by (auto simp: Post_def Put_def SendString_def SendStatus_def split: sum.splits)
  from bp t c post put bad show ?thesis by blast
qed

theorem BodyParser_no_required_field_witness:
  "fst (BodyParser (JSON (JObject [(''note'', JNumber 5)])) new_Todo) = None
   \<and> Text (snd (BodyParser (JSON (JObject [(''note'', JNumber 5)])) new_Todo)) = []
   \<and> Completed (snd (BodyParser (JSON (JObject [(''note'', JNumber 5)])) new_Todo)) = False
   \<and> status (fst (Post None [1, 2, 3, 4, 5, 6, 7, 8, 9, 10, 11, 12] None
        (JSON (JObject [(''note'', JNumber 5)])) \<lparr>documents = [], calls = []\<rparr>)) \<noteq> 400
   \<and> status (fst (Put None ''0102030405060708090a0b0c''
        (JSON (JObject [(''note'', JNumber 5)])) \<lparr>documents = [], calls = []\<rparr>)) \<noteq> 400
   \<and> status (fst (Post None [1, 2, 3, 4, 5, 6, 7, 8, 9, 10, 11, 12] None
        (JSON (JObject [(''text'', JNumber 5)])) \<lparr>documents = [], calls = []\<rparr>)) = 400
   \<and> status (fst (Put None ''0102030405060708090a0b0c''
        (JSON (JObject [(''text'', JNumber 5)])) \<lparr>documents = [], calls = []\<rparr>)) = 400"
proof -
  have fits: "list_all member_fits [(''note'', JNumber 5)]"
    by (simp add: member_fits_def field_of_key_def lower_def)
  have bad: "BodyParser (JSON (JObject [(''text'', JNumber 5)])) new_Todo =
      (Some (UnmarshalTypeError ''number'' ''text'' ''string''), new_Todo)"
    by (simp add: BodyParser_def Unmarshal_def field_of_key_def lower_def saveError_def)
  show ?thesis
    using BodyParser_no_required_field [OF fits, of None "[1, 2, 3, 4, 5, 6, 7, 8, 9, 10, 11, 12]"
        None "\<lparr>documents = [], calls = []\<rparr>" "''0102030405060708090a0b0c''" None]
      example_ObjectID bad
    by (auto simp add: field_of_key_def lower_def new_Todo_def)
qed

subsection \<open>Updating\<close>

text \<open>What an answer 200 of PUT /:id tells.\<close>

lemma Put_200_cases:
  assumes "Put fault idParam b db = (r, db')" and "status r = 200"
  obtains todoID todo d where "ObjectIDFromHex idParam = Inr todoID"
    "BodyParser b new_Todo = (None, todo)" "fault = None"
    "find (\<lambda>x. d_id x = ObjectIDValue todoID) (documents db) = Some d"
    "db' = called Call_FindOneAndUpdate
       (db\<lparr>documents := set_first (ObjectIDValue todoID) (Text todo) (Completed todo) (documents db)\<rparr>)"
    "r = \<lparr>status = 200, payload = JSON_Todo (todo\<lparr>ID := idParam\<rparr>)\<rparr>"
proof -
  obtain todoID where oid: "ObjectIDFromHex idParam = Inr todoID"
    using assms by (cases "ObjectIDFromHex idParam") (auto simp: Put_def SendStatus_def)
  obtain e todo where bp: "BodyParser b new_Todo = (e, todo)" by (cases "BodyParser b new_Todo")
  with assms oid have e: "e = None"
    by (cases e) (auto simp: Put_def SendString_def)
  from assms oid bp e have f: "fault = None"
    by (cases fault) (auto simp: Put_def FindOneAndUpdate_def Err_def SendStatus_def)
  from assms oid bp e f obtain d
    where d: "find (\<lambda>x. d_id x = ObjectIDValue todoID) (documents db) = Some d"
    by (cases "find (\<lambda>x. d_id x = ObjectIDValue todoID) (documents db)")
      (auto simp: Put_def FindOneAndUpdate_def Err_def SendStatus_def)
  from assms oid bp e f d
  have "db' = called Call_FindOneAndUpdate
       (db\<lparr>documents := set_first (ObjectIDValue todoID) (Text todo) (Completed todo) (documents db)\<rparr>)"
    and "r = \<lparr>status = 200, payload = JSON_Todo (todo\<lparr>ID := idParam\<rparr>)\<rparr>"
    by (auto simp: Put_def FindOneAndUpdate_def Err_def JSON_body_def)
  with that oid bp e f d show thesis by blast
qed

text \<open>
  C5. When PUT /:id answers 200, a record \<open>d\<close> has the id of the path; afterwards the
  first record with that id is \<open>d\<close> with the text and completed flag of the body and
  everything else as before; the ids of the collection are the same, position by position,
  and every record with another id is unchanged. A GET of the same id answers with the
  same id before and after the update.
\<close>

theorem Put_frame:
  assumes "Put fault idParam b db = (r, db')" and "status r = 200"
  shows "\<exists>todoID todo d. ObjectIDFromHex idParam = Inr todoID
    \<and> BodyParser b new_Todo = (None, todo)
    \<and> find (\<lambda>x. d_id x = ObjectIDValue todoID) (documents db) = Some d
    \<and> find (\<lambda>x. d_id x = ObjectIDValue todoID) (documents db') =
        Some (d\<lparr>d_text := Text todo, d_completed := Completed todo\<rparr>)
    \<and> map d_id (documents db') = map d_id (documents db)
    \<and> (\<forall>i < length (documents db). d_id (documents db ! i) \<noteq> ObjectIDValue todoID
          \<longrightarrow> documents db' ! i = documents db ! i)
    \<and> payload (fst (Get_id None idParam db)) = JSON_Todo (Todo_of_document d)
    \<and> ID (Todo_of_document d) = Hex todoID
    \<and> payload (fst (Get_id None idParam db')) =
        JSON_Todo \<lparr>ID = Hex todoID, Text = Text todo, Completed = Completed todo\<rparr>"
proof -
  from assms obtain todoID todo d where oid: "ObjectIDFromHex idParam = Inr todoID"
    and bp: "BodyParser b new_Todo = (None, todo)"
    and d: "find (\<lambda>x. d_id x = ObjectIDValue todoID) (documents db) = Some d"
    and db': "db' = called Call_FindOneAndUpdate
       (db\<lparr>documents := set_first (ObjectIDValue todoID) (Text todo) (Completed todo) (documents db)\<rparr>)"
    by (rule Put_200_cases)
  have docs: "documents db' =
      set_first (ObjectIDValue todoID) (Text todo) (Completed todo) (documents db)"
    using db' by (simp add: called_def)
  have key: "d_id d = ObjectIDValue todoID" using d by (rule find_Some_key)
  have d': "find (\<lambda>x. d_id x = ObjectIDValue todoID) (documents db') =
        Some (d\<lparr>d_text := Text todo, d_completed := Completed todo\<rparr>)"
    unfolding docs using d by (rule find_set_first)
  have ids: "map d_id (documents db') = map d_id (documents db)"
    unfolding docs by (rule map_d_id_set_first)
  have others: "\<forall>i < length (documents db). d_id (documents db ! i) \<noteq> ObjectIDValue todoID
          \<longrightarrow> documents db' ! i = documents db ! i"
    unfolding docs by (simp add: set_first_other)
  have before: "payload (fst (Get_id None idParam db)) = JSON_Todo (Todo_of_document d)"
    using oid d by (simp add: Get_id_def FindOne_def Decode_def JSON_body_def)
  have same: "ID (Todo_of_document d) = Hex todoID"
    using key by (simp add: Todo_of_document_def)
  have after: "payload (fst (Get_id None idParam db')) =
        JSON_Todo \<lparr>ID = Hex todoID, Text = Text todo, Completed = Completed todo\<rparr>"
    using oid d' key by (simp add: Get_id_def FindOne_def Decode_def JSON_body_def Todo_of_document_def)
  from oid bp d d' ids others before same after show ?thesis by blast
qed

theorem Put_frame_witness:
  "Put None ''0102030405060708090a0b0c''
      (JSON (JObject [(''text'', JString ''buy milk''), (''completed'', JBool True)]))
      \<lparr>documents = [\<lparr>d_id = ObjectIDValue [1, 2, 3, 4, 5, 6, 7, 8, 9, 10, 11, 13],
                       d_text = ''call home'', d_completed = False\<rparr>,
                      \<lparr>d_id = ObjectIDValue [1, 2, 3, 4, 5, 6, 7, 8, 9, 10, 11, 12],
                       d_text = ''buy milk'', d_completed = False\<rparr>], calls = []\<rparr> =
     (\<lparr>status = 200,
       payload = JSON_Todo \<lparr>ID = ''0102030405060708090a0b0c'', Text = ''buy milk'',
                           Completed = True\<rparr>\<rparr>,
      \<lparr>documents = [\<lparr>d_id = ObjectIDValue [1, 2, 3, 4, 5, 6, 7, 8, 9, 10, 11, 13],
                       d_text = ''call home'', d_completed = False\<rparr>,
                      \<lparr>d_id = ObjectIDValue [1, 2, 3, 4, 5, 6, 7, 8, 9, 10, 11, 12],
                       d_text = ''buy milk'', d_completed = True\<rparr>],
       calls = [Call_FindOneAndUpdate]\<rparr>)
   \<and> payload (fst (Get_id None ''0102030405060708090a0b0c''
      \<lparr>documents = [\<lparr>d_id = ObjectIDValue [1, 2, 3, 4, 5, 6, 7, 8, 9, 10, 11, 13],
                       d_text = ''call home'', d_completed = False\<rparr>,
                      \<lparr>d_id = ObjectIDValue [1, 2, 3, 4, 5, 6, 7, 8, 9, 10, 11, 12],
                       d_text = ''buy milk'', d_completed = True\<rparr>],
       calls = [Call_FindOneAndUpdate]\<rparr>)) =
     JSON_Todo \<lparr>ID = Hex [1, 2, 3, 4, 5, 6, 7, 8, 9, 10, 11, 12], Text = ''buy milk'',
               Completed = True\<rparr>"
proof -
  let ?b = "JSON (JObject [(''text'', JString ''buy milk''), (''completed'', JBool True)])"
  let ?db = "\<lparr>documents = [\<lparr>d_id = ObjectIDValue [1, 2, 3, 4, 5, 6, 7, 8, 9, 10, 11, 13],
                       d_text = ''call home'', d_completed = False\<rparr>,
                      \<lparr>d_id = ObjectIDValue [1, 2, 3, 4, 5, 6, 7, 8, 9, 10, 11, 12],
                       d_text = ''buy milk'', d_completed = False\<rparr>], calls = []\<rparr>"
  let ?r = "\<lparr>status = 200,
       payload = JSON_Todo \<lparr>ID = ''0102030405060708090a0b0c'', Text = ''buy milk'',
                           Completed = True\<rparr>\<rparr>"
  let ?db' = "\<lparr>documents = [\<lparr>d_id = ObjectIDValue [1, 2, 3, 4, 5, 6, 7, 8, 9, 10, 11, 13],
                       d_text = ''call home'', d_completed = False\<rparr>,
                      \<lparr>d_id = ObjectIDValue [1, 2, 3, 4, 5, 6, 7, 8, 9, 10, 11, 12],
                       d_text = ''buy milk'', d_completed = True\<rparr>],
       calls = [Call_FindOneAndUpdate]\<rparr>"
  have put: "Put None ''0102030405060708090a0b0c'' ?b ?db = (?r, ?db')"
    by (simp add: Put_def example_ObjectID example_body FindOneAndUpdate_def Err_def
        called_def JSON_body_def)
  have st: "status ?r = 200" by simp
  show ?thesis
    using put Put_frame [OF put st]
    by (auto simp add: example_ObjectID example_body)
qed

text \<open>
  C8. PUT /:id with a well-formed id and a body that parses: 200 with the record of the
  body under the id of the path when a record has the id, 404 when none has, 500 when the
  store fails.
\<close>

theorem Put_statuses:
  assumes "ObjectIDFromHex idParam = Inr todoID"
    and "BodyParser b new_Todo = (None, todo)"
  shows "(fault = None \<and> ObjectIDValue todoID \<in> d_id ` set (documents db) \<longrightarrow>
            fst (Put fault idParam b db) =
              \<lparr>status = 200,
               payload = JSON_Todo \<lparr>ID = idParam, Text = Text todo, Completed = Completed todo\<rparr>\<rparr>)
    \<and> (fault = None \<and> ObjectIDValue todoID \<notin> d_id ` set (documents db) \<longrightarrow>
            Put fault idParam b db = (SendStatus 404, called Call_FindOneAndUpdate db)
            \<and> status (SendStatus 404) = 404)
    \<and> (fault \<noteq> None \<longrightarrow>
            Put fault idParam b db = (SendStatus 500, called Call_FindOneAndUpdate db)
            \<and> status (SendStatus 500) = 500)"
proof (intro conjI impI)
  assume "fault = None \<and> ObjectIDValue todoID \<in> d_id ` set (documents db)"
  then obtain d where "fault = None" "find (\<lambda>d. d_id d = ObjectIDValue todoID) (documents db) = Some d"
    by (cases "find (\<lambda>d. d_id d = ObjectIDValue todoID) (documents db)")
      (auto simp: find_None_iff_key)
  with assms show "fst (Put fault idParam b db) =
      \<lparr>status = 200,
       payload = JSON_Todo \<lparr>ID = idParam, Text = Text todo, Completed = Completed todo\<rparr>\<rparr>"
    by (cases todo) (simp add: Put_def FindOneAndUpdate_def Err_def JSON_body_def)
next
  assume "fault = None \<and> ObjectIDValue todoID \<notin> d_id ` set (documents db)"
  then have "fault = None" "find (\<lambda>d. d_id d = ObjectIDValue todoID) (documents db) = None"
    by (simp_all add: find_None_iff_key)
  with assms show "Put fault idParam b db = (SendStatus 404, called Call_FindOneAndUpdate db)"
    by (simp add: Put_def FindOneAndUpdate_def Err_def)
next
  assume "fault \<noteq> None"
  with assms show "Put fault idParam b db = (SendStatus 500, called Call_FindOneAndUpdate db)"
    by (auto simp: Put_def FindOneAndUpdate_def Err_def)
qed (simp_all add: SendStatus_def)

theorem Put_statuses_witness:
  "fst (Put None ''0102030405060708090a0b0c''
      (JSON (JObject [(''text'', JString ''buy milk''), (''completed'', JBool True)]))
      \<lparr>documents = [\<lparr>d_id = ObjectIDValue [1, 2, 3, 4, 5, 6, 7, 8, 9, 10, 11, 12],
                       d_text = ''buy milk'', d_completed = False\<rparr>], calls = []\<rparr>) =
     \<lparr>status = 200,
      payload = JSON_Todo \<lparr>ID = ''0102030405060708090a0b0c'', Text = ''buy milk'',
                          Completed = True\<rparr>\<rparr>
   \<and> Put None ''0102030405060708090a0b0c''
      (JSON (JObject [(''text'', JString ''buy milk''), (''completed'', JBool True)]))
      \<lparr>documents = [], calls = []\<rparr> =
     (\<lparr>status = 404, payload = Plain ''Not Found''\<rparr>, \<lparr>documents = [], calls = [Call_FindOneAndUpdate]\<rparr>)
   \<and> Put (Some ''socket closed'') ''0102030405060708090a0b0c''
      (JSON (JObject [(''text'', JString ''buy milk''), (''completed'', JBool True)]))
      \<lparr>documents = [], calls = []\<rparr> =
     (\<lparr>status = 500, payload = Plain ''Internal Server Error''\<rparr>, \<lparr>documents = [], calls = [Call_FindOneAndUpdate]\<rparr>)"
  using Put_statuses [OF example_ObjectID example_body, of None
      "\<lparr>documents = [\<lparr>d_id = ObjectIDValue [1, 2, 3, 4, 5, 6, 7, 8, 9, 10, 11, 12],
                       d_text = ''buy milk'', d_completed = False\<rparr>], calls = []\<rparr>"]
    Put_statuses [OF example_ObjectID example_body, of None "\<lparr>documents = [], calls = []\<rparr>"]
    Put_statuses [OF example_ObjectID example_body, of "Some ''socket closed''"
      "\<lparr>documents = [], calls = []\<rparr>"]
  by (simp add: SendStatus_def StatusMessage_def called_def)

subsection \<open>Deleting\<close>

text \<open>
  C6. DELETE /:id with a well-formed id: 404 when no record has the id, and so for a record
  that was just deleted; 204 without a body when a record is deleted; 500 when the store
  fails.
\<close>

theorem Delete_statuses:
  assumes "ObjectIDFromHex idParam = Inr todoID"
  shows "(ObjectIDValue todoID \<notin> d_id ` set (documents db) \<longrightarrow>
            Delete None idParam db = (SendStatus 404, called Call_DeleteOne db))
    \<and> (ObjectIDValue todoID \<in> d_id ` set (documents db) \<longrightarrow>
            fst (Delete None idParam db) = \<lparr>status = 204, payload = Empty\<rparr>
            \<and> Suc (length (documents (snd (Delete None idParam db)))) = length (documents db))
    \<and> (ObjectIDValue todoID \<in> d_id ` set (documents db) \<and> distinct (map d_id (documents db)) \<longrightarrow>
            fst (Delete None idParam (snd (Delete None idParam db))) = SendStatus 404)
    \<and> Delete (Some m) idParam db = (SendStatus 500, called Call_DeleteOne db)
    \<and> status (SendStatus 404) = 404 \<and> status (SendStatus 500) = 500"
  using assms
  by (simp add: Delete_def DeleteOne_def SendStatus_def called_def length_remove_first
      remove_first_distinct)

theorem Delete_statuses_witness:
  "Delete None ''0102030405060708090a0b0c'' \<lparr>documents = [], calls = []\<rparr> =
     (\<lparr>status = 404, payload = Plain ''Not Found''\<rparr>, \<lparr>documents = [], calls = [Call_DeleteOne]\<rparr>)
   \<and> fst (Delete None ''0102030405060708090a0b0c''
        \<lparr>documents = [\<lparr>d_id = ObjectIDValue [1, 2, 3, 4, 5, 6, 7, 8, 9, 10, 11, 12],
                         d_text = ''buy milk'', d_completed = True\<rparr>], calls = []\<rparr>) =
       \<lparr>status = 204, payload = Empty\<rparr>
   \<and> fst (Delete None ''0102030405060708090a0b0c''
        (snd (Delete None ''0102030405060708090a0b0c''
          \<lparr>documents = [\<lparr>d_id = ObjectIDValue [1, 2, 3, 4, 5, 6, 7, 8, 9, 10, 11, 12],
                           d_text = ''buy milk'', d_completed = True\<rparr>], calls = []\<rparr>))) =
       \<lparr>status = 404, payload = Plain ''Not Found''\<rparr>
   \<and> Delete (Some ''socket closed'') ''0102030405060708090a0b0c'' \<lparr>documents = [], calls = []\<rparr> =
     (\<lparr>status = 500, payload = Plain ''Internal Server Error''\<rparr>, \<lparr>documents = [], calls = [Call_DeleteOne]\<rparr>)"
  using Delete_statuses [OF example_ObjectID, of "\<lparr>documents = [], calls = []\<rparr>" "''socket closed''"]
    Delete_statuses [OF example_ObjectID, of
      "\<lparr>documents = [\<lparr>d_id = ObjectIDValue [1, 2, 3, 4, 5, 6, 7, 8, 9, 10, 11, 12],
                       d_text = ''buy milk'', d_completed = True\<rparr>], calls = []\<rparr>" "''socket closed''"]
  by (simp add: SendStatus_def StatusMessage_def called_def)

end
